theory Spec2Isabelle
  imports Complex_Main "HOL-Library.Word"
begin

section \<open>Data model of object\_recognizer\_node.cpp\<close>

text \<open>
  The node is one C++ class, \<open>ObjDetector\<close>, over OpenCV 2.4, cv\_bridge and ROS.
  The library types are modelled by the parts of them the class touches.

  \<^item> \<open>cv::Point2f\<close> is a pair of \<open>float\<close> coordinates, \<open>cv::Point\<close> (and \<open>CvPoint\<close>) a
    pair of \<open>int\<close> coordinates, \<open>geometry_msgs::Point32\<close> a triple.
  \<^item> \<open>cv::Mat\<close> is its dimensions and its cells.
  \<^item> \<open>cv::DMatch::distance\<close> is a C \<open>float\<close>, read into a \<open>double\<close> at line 97 and
    compared with \<open>3*min_dist\<close> in \<open>double\<close> at line 108. Every finite \<open>float\<close> is a
    \<open>double\<close>, and three times a 24-bit significand fits the 53 bits of a \<open>double\<close>, so
    on finite distances both comparisons and the product are exact: distances are modelled
    as \<open>real\<close>. (The matcher in use, BruteForce-Hamming, returns bit counts.)
  \<^item> \<open>sensor_msgs::ImageConstPtr\<close> is a shared pointer to an immutable message; the
    null pointer is \<open>None\<close>.
\<close>

type_synonym Point2f = "real \<times> real"

type_synonym Point = "int \<times> int"

datatype Point32 = Point32 (p32_x: real) (p32_y: real) (p32_z: real)

record Mat =
  rows :: int
  cols :: int
  cells :: "real list"

record KeyPoint =
  pt :: Point2f
  kp_size :: real
  kp_angle :: real

record DMatch =
  queryIdx :: int
  trainIdx :: int
  imgIdx :: int
  distance :: real

record Image =
  img_height :: nat
  img_width :: nat
  img_encoding :: string
  img_data :: "8 word list"

type_synonym ImageConstPtr = "Image option"

text \<open>
  The members of \<open>ObjDetector\<close> (lines 24--36). The three algorithm handles
  \<open>detector\<close>, \<open>extractor\<close>, \<open>matcher\<close> (lines 18--22) are set once in the constructor
  and only ever called through \<open>const\<close> methods; they are the library operations of
  \<open>cvlib\<close> below. The transport members \<open>it\<close>, \<open>image_sub\<close>, \<open>map_sub\<close> deliver the
  callbacks and hold no data of the class.
\<close>

record ObjDetector =
  obj_img :: Mat
  obj_keypoints :: "KeyPoint list"
  obj_descriptors :: Mat
  haveImageFrame :: bool
  haveMapFrame :: bool
  lastImageFrame :: ImageConstPtr
  lastMapFrame :: ImageConstPtr

section \<open>The match filter (lines 91--110)\<close>

text \<open>
  The first loop (lines 95--100) runs over \<open>matches\<close> with the two accumulators
  \<open>max_dist\<close> and \<open>min_dist\<close>; line 91 starts them at \<open>0\<close> and \<open>100\<close>. (The
  loops count with an \<open>int\<close>; vectors of \<open>2^31\<close> elements or more are left out.)
\<close>

fun dist_range :: "DMatch list \<Rightarrow> real \<Rightarrow> real \<Rightarrow> real \<times> real" where
  "dist_range [] max_dist min_dist = (max_dist, min_dist)"
| "dist_range (m # ms) max_dist min_dist =
     (let dist = distance m;
          min_dist' = (if dist < min_dist then dist else min_dist);
          max_dist' = (if dist > max_dist then dist else max_dist)
      in dist_range ms max_dist' min_dist')"

definition min_dist_of :: "DMatch list \<Rightarrow> real" where
  "min_dist_of matches = snd (dist_range matches 0 100)"

text \<open>The second loop (lines 106--110) pushes the matches under \<open>3*min_dist\<close>, in order.\<close>

fun keep_below :: "real \<Rightarrow> DMatch list \<Rightarrow> DMatch list" where
  "keep_below min_dist [] = []"
| "keep_below min_dist (m # ms) =
     (if distance m < 3 * min_dist then m # keep_below min_dist ms
      else keep_below min_dist ms)"

definition good_matches_of :: "DMatch list \<Rightarrow> DMatch list" where
  "good_matches_of matches = keep_below (min_dist_of matches) matches"

section \<open>The libraries, as parameters\<close>

text \<open>
  OpenCV, cv\_bridge and ROS are not part of the repository. Each library call the class
  makes is a field of \<open>cvlib\<close>: a function of the arguments the call receives, giving
  either the exception the call throws (\<open>Inl\<close>) or its result (\<open>Inr\<close>). Nothing is
  assumed about these functions, so every theorem below holds for any behaviour of the
  libraries that is a function of the arguments.

  \<^item> \<open>detector_detect\<close>, \<open>extractor_compute\<close>, \<open>matcher_match\<close> are the methods of the
    objects created at lines 43--45 (ORB, FREAK, BruteForce-Hamming).
    \<open>extractor_compute\<close> returns the keypoints too: the library may drop keypoints it
    cannot describe from the vector it is given.
  \<^item> \<open>cvtColor\<close> is the call with \<open>CV_BGR2GRAY\<close>, \<open>cv_line\<close> the call with
    \<open>cv::Scalar(0, 255, 0)\<close> and thickness \<open>4\<close>; a \<open>cv_line\<close> that throws is taken to
    leave the image as it was.
  \<^item> \<open>Point2f_of_CvPoint\<close> and \<open>Point_of_Point2f\<close> are the two point conversions of
    OpenCV the class goes through: a \<open>CvPoint\<close> stored into a \<open>cv::Point2f\<close> (lines
    127--130, \<open>int\<close> to \<open>float\<close>), and a \<open>cv::Point2f\<close> handed to \<open>cv::line\<close>, which
    takes \<open>cv::Point\<close> (lines 138--141, \<open>float\<close> rounded to \<open>int\<close>). They do not throw.
\<close>

datatype exn = cv_bridge_Exception | cv_Exception | other_exception

datatype fit_method = Regular | CV_LMEDS | CV_RANSAC

record cvlib =
  imread :: "string \<Rightarrow> exn + Mat"
  toCvCopy :: "ImageConstPtr \<Rightarrow> string \<Rightarrow> exn + Mat"
  cvtColor :: "Mat \<Rightarrow> exn + Mat"
  detector_detect :: "Mat \<Rightarrow> exn + KeyPoint list"
  extractor_compute :: "Mat \<Rightarrow> KeyPoint list \<Rightarrow> exn + (KeyPoint list \<times> Mat)"
  matcher_match :: "Mat \<Rightarrow> Mat \<Rightarrow> exn + DMatch list"
  findHomography :: "Point2f list \<Rightarrow> Point2f list \<Rightarrow> fit_method \<Rightarrow> exn + Mat"
  perspectiveTransform :: "Point2f list \<Rightarrow> Mat \<Rightarrow> exn + Point2f list"
  Point2f_of_CvPoint :: "Point \<Rightarrow> Point2f"
  Point_of_Point2f :: "Point2f \<Rightarrow> Point"
  cv_line :: "Mat \<Rightarrow> Point \<Rightarrow> Point \<Rightarrow> exn + Mat"
  imshow :: "string \<Rightarrow> Mat \<Rightarrow> exn + unit"
  waitKey :: "int \<Rightarrow> exn + int"

definition BGR8 :: string where
  "BGR8 = ''bgr8''"

section \<open>Effects: the calls made, and how a method ends\<close>

text \<open>
  A method of the class ends in one of four ways: it returns, an exception leaves it,
  the process exits (\<open>exit(-1)\<close>, line 67), or it reads a \<open>std::vector\<close> out of range
  (undefined behaviour in C++). Beside that, the model records the library calls in the
  order the method makes them, each with its arguments.
\<close>

datatype 'a outcome = Returned 'a | Thrown exn | Exited int | Undefined_behaviour

datatype event =
    Call_imread string
  | Call_toCvCopy ImageConstPtr string
  | Call_ROS_ERROR
  | Call_cvtColor Mat
  | Call_detect Mat
  | Call_compute Mat "KeyPoint list"
  | Call_match Mat Mat
  | Call_findHomography "Point2f list" "Point2f list" fit_method
  | Call_perspectiveTransform "Point2f list" Mat
  | Call_line Mat Point Point
  | Call_imshow string Mat
  | Call_waitKey int

type_synonym 'a run = "event list \<times> 'a outcome"

definition call :: "event \<Rightarrow> exn + 'a \<Rightarrow> 'a run" where
  "call e r = ([e], case r of Inl x \<Rightarrow> Thrown x | Inr v \<Rightarrow> Returned v)"

text \<open>Sequencing: the second part runs only if the first returned.\<close>

definition and_then :: "'a run \<Rightarrow> ('a \<Rightarrow> 'b run) \<Rightarrow> 'b run" where
  "and_then m f =
     (case snd m of
        Returned a \<Rightarrow> (fst m @ fst (f a), snd (f a))
      | Thrown x \<Rightarrow> (fst m, Thrown x)
      | Exited n \<Rightarrow> (fst m, Exited n)
      | Undefined_behaviour \<Rightarrow> (fst m, Undefined_behaviour))"

section \<open>Decoding the frame (lines 61--68)\<close>

text \<open>
  Only \<open>cv_bridge::Exception\<close> is caught; the handler logs and calls \<open>exit(-1)\<close>. Any
  other exception of \<open>toCvCopy\<close> leaves \<open>find_object\<close>.
\<close>

definition decode_frame :: "cvlib \<Rightarrow> ImageConstPtr \<Rightarrow> Mat run" where
  "decode_frame cv msg =
     (case toCvCopy cv msg BGR8 of
        Inr bgr \<Rightarrow> ([Call_toCvCopy msg BGR8], Returned bgr)
      | Inl x \<Rightarrow>
          (if x = cv_bridge_Exception
           then ([Call_toCvCopy msg BGR8, Call_ROS_ERROR], Exited (- 1))
           else ([Call_toCvCopy msg BGR8], Thrown x)))"

section \<open>Point correspondences (lines 112--120)\<close>

text \<open>
  \<open>std::vector::operator[]\<close> does not check its index; \<open>queryIdx\<close> and \<open>trainIdx\<close> are
  \<open>int\<close>. An index outside the vector is \<open>None\<close> here and undefined behaviour in
  \<open>front_end\<close>.
\<close>

definition at_index :: "'a list \<Rightarrow> int \<Rightarrow> 'a option" where
  "at_index xs i = (if 0 \<le> i \<and> i < int (length xs) then Some (xs ! nat i) else None)"

fun correspondences ::
  "KeyPoint list \<Rightarrow> KeyPoint list \<Rightarrow> DMatch list \<Rightarrow> (Point2f list \<times> Point2f list) option"
where
  "correspondences obj_kps img_kps [] = Some ([], [])"
| "correspondences obj_kps img_kps (m # ms) =
     (case at_index obj_kps (queryIdx m) of
        None \<Rightarrow> None
      | Some ok \<Rightarrow>
          (case at_index img_kps (trainIdx m) of
             None \<Rightarrow> None
           | Some ik \<Rightarrow>
               (case correspondences obj_kps img_kps ms of
                  None \<Rightarrow> None
                | Some (obj, scene) \<Rightarrow> Some (pt ok # obj, pt ik # scene))))"

section \<open>From the frame to the correspondences (lines 61--120)\<close>

text \<open>
  Returns \<open>color\<close> (the clone of the decoded image, line 78) with the two point vectors.
  The calls outside a \<open>try\<close> (lines 76--89) let every exception through.
\<close>

definition front_end ::
  "cvlib \<Rightarrow> ObjDetector \<Rightarrow> ImageConstPtr \<Rightarrow> (Mat \<times> Point2f list \<times> Point2f list) run"
where
  "front_end cv d msg =
     and_then (decode_frame cv msg) (\<lambda>bgr.
     and_then (call (Call_cvtColor bgr) (cvtColor cv bgr)) (\<lambda>img.
     and_then (call (Call_detect img) (detector_detect cv img)) (\<lambda>detected.
     and_then (call (Call_compute img detected) (extractor_compute cv img detected))
       (\<lambda>(img_keypoints, img_descriptors).
     and_then (call (Call_match (obj_descriptors d) img_descriptors)
                 (matcher_match cv (obj_descriptors d) img_descriptors)) (\<lambda>matches.
     (case correspondences (obj_keypoints d) img_keypoints (good_matches_of matches) of
        None \<Rightarrow> ([], Undefined_behaviour)
      | Some (obj, scene) \<Rightarrow> ([], Returned (bgr, obj, scene))))))))"

section \<open>Homography and outline (lines 122--144)\<close>

text \<open>
  \<open>cvPoint\<close> takes the \<open>int\<close> dimensions of the calibration image; each \<open>CvPoint\<close> is
  converted as it is stored into the vector of \<open>cv::Point2f\<close> (lines 126--130).
\<close>

definition obj_corners_of :: "cvlib \<Rightarrow> Mat \<Rightarrow> Point2f list" where
  "obj_corners_of cv m =
     [Point2f_of_CvPoint cv (0, 0), Point2f_of_CvPoint cv (cols m, 0),
      Point2f_of_CvPoint cv (cols m, rows m), Point2f_of_CvPoint cv (0, rows m)]"

text \<open>
  The four \<open>cv::line\<close> calls (lines 138--141) draw into \<open>color\<close> one after the other.
  The result is the image so far and the exception that stopped the drawing, if any.
\<close>

fun draw_lines :: "cvlib \<Rightarrow> Mat \<Rightarrow> (Point \<times> Point) list \<Rightarrow> event list \<times> Mat \<times> exn option"
where
  "draw_lines cv color [] = ([], color, None)"
| "draw_lines cv color ((p, q) # segs) =
     (case cv_line cv color p q of
        Inl x \<Rightarrow> ([Call_line color p q], color, Some x)
      | Inr color' \<Rightarrow>
          (case draw_lines cv color' segs of
             (t, c, r) \<Rightarrow> (Call_line color p q # t, c, r)))"

text \<open>
  The body of the \<open>try\<close>. It returns the image as the statements left it, with the
  exception that ended the body early (\<open>None\<close> when it ran to its end).
  \<open>scene_corners\<close> is what \<open>perspectiveTransform\<close> wrote; the four reads of lines
  138--141 are in range only if it has four elements. Each corner is converted to
  \<open>cv::Point\<close> where it is passed to \<open>cv::line\<close>.
\<close>

definition try_body ::
  "cvlib \<Rightarrow> ObjDetector \<Rightarrow> Mat \<Rightarrow> Point2f list \<Rightarrow> Point2f list \<Rightarrow> (Mat \<times> exn option) run"
where
  "try_body cv d color obj scene =
     (case findHomography cv obj scene CV_RANSAC of
        Inl x \<Rightarrow> ([Call_findHomography obj scene CV_RANSAC], Returned (color, Some x))
      | Inr H \<Rightarrow>
          (let obj_corners = obj_corners_of cv (obj_img d) in
           case perspectiveTransform cv obj_corners H of
             Inl x \<Rightarrow>
               ([Call_findHomography obj scene CV_RANSAC,
                 Call_perspectiveTransform obj_corners H], Returned (color, Some x))
           | Inr scene_corners \<Rightarrow>
               (if length scene_corners < 4
                then ([Call_findHomography obj scene CV_RANSAC,
                       Call_perspectiveTransform obj_corners H], Undefined_behaviour)
                else
                  (case draw_lines cv color
                          [(Point_of_Point2f cv (scene_corners ! 0),
                            Point_of_Point2f cv (scene_corners ! 1)),
                           (Point_of_Point2f cv (scene_corners ! 1),
                            Point_of_Point2f cv (scene_corners ! 2)),
                           (Point_of_Point2f cv (scene_corners ! 2),
                            Point_of_Point2f cv (scene_corners ! 3)),
                           (Point_of_Point2f cv (scene_corners ! 3),
                            Point_of_Point2f cv (scene_corners ! 0))] of
                     (t, color', r) \<Rightarrow>
                       ([Call_findHomography obj scene CV_RANSAC,
                         Call_perspectiveTransform obj_corners H] @ t,
                        Returned (color', r))))))"

text \<open>
  The \<open>try\<close> statement with its handler \<open>catch(cv::Exception e) { }\<close>: a
  \<open>cv::Exception\<close> ends the statement normally, any other exception leaves
  \<open>find_object\<close>.
\<close>

definition outline_object ::
  "cvlib \<Rightarrow> ObjDetector \<Rightarrow> Mat \<Rightarrow> Point2f list \<Rightarrow> Point2f list \<Rightarrow> Mat run"
where
  "outline_object cv d color obj scene =
     and_then (try_body cv d color obj scene) (\<lambda>(color', r).
       (case r of
          None \<Rightarrow> ([], Returned color')
        | Some x \<Rightarrow>
            (if x = cv_Exception then ([], Returned color') else ([], Thrown x))))"

section \<open>find\_object (lines 60--157)\<close>

text \<open>
  \<open>find_object\<close> is a non-\<open>const\<close> member function: the model hands the object back
  with the returned point. \<open>mapMsg\<close> is a parameter the body never reads.
\<close>

definition find_object ::
  "cvlib \<Rightarrow> ObjDetector \<Rightarrow> ImageConstPtr \<Rightarrow> ImageConstPtr \<Rightarrow> (ObjDetector \<times> Point32) run"
where
  "find_object cv d msg mapMsg =
     and_then (front_end cv d msg) (\<lambda>(color, obj, scene).
     and_then (outline_object cv d color obj scene) (\<lambda>color'.
     and_then (call (Call_imshow ''OUT'' color') (imshow cv ''OUT'' color')) (\<lambda>_.
     and_then (call (Call_waitKey 1) (waitKey cv 1)) (\<lambda>_.
     ([], Returned (d, Point32 0 0 0))))))"

section \<open>The frame slot: detect and the two callbacks (lines 159--174)\<close>

definition detect :: "cvlib \<Rightarrow> ObjDetector \<Rightarrow> ObjDetector run" where
  "detect cv d =
     (if lastImageFrame d \<noteq> None
      then and_then (find_object cv d (lastImageFrame d) (lastMapFrame d))
             (\<lambda>(d', object_loc).
                ([], Returned (d'\<lparr>lastImageFrame := None, lastMapFrame := None\<rparr>)))
      else ([], Returned d))"

definition process_image_frame :: "ImageConstPtr \<Rightarrow> ObjDetector \<Rightarrow> ObjDetector" where
  "process_image_frame msg d = d\<lparr>lastImageFrame := msg\<rparr>"

definition process_map_frame :: "ImageConstPtr \<Rightarrow> ObjDetector \<Rightarrow> ObjDetector" where
  "process_map_frame msg d = d\<lparr>lastMapFrame := msg\<rparr>"

section \<open>The constructor (lines 38--55)\<close>

definition new_ObjDetector :: "cvlib \<Rightarrow> string \<Rightarrow> ObjDetector run" where
  "new_ObjDetector cv calib_image_name =
     and_then (call (Call_imread calib_image_name) (imread cv calib_image_name)) (\<lambda>img.
     and_then (call (Call_detect img) (detector_detect cv img)) (\<lambda>detected.
     and_then (call (Call_compute img detected) (extractor_compute cv img detected))
       (\<lambda>(keypoints, descriptors).
     ([], Returned \<lparr>obj_img = img, obj_keypoints = keypoints,
                     obj_descriptors = descriptors,
                     haveImageFrame = False, haveMapFrame = False,
                     lastImageFrame = None, lastMapFrame = None\<rparr>))))"

section \<open>The polling loop of main (lines 191--195)\<close>

text \<open>
  Each round of the loop lets \<open>ros::spinOnce\<close> deliver pending messages to the two
  callbacks and then calls \<open>detect\<close>. Seen from the object, the process is a sequence of
  callback deliveries and ticks; it stops when a tick does not return.
\<close>

datatype activity = Image_arrives ImageConstPtr | Map_arrives ImageConstPtr | Tick

fun step :: "cvlib \<Rightarrow> activity \<Rightarrow> ObjDetector \<Rightarrow> ObjDetector run" where
  "step cv (Image_arrives msg) d = ([], Returned (process_image_frame msg d))"
| "step cv (Map_arrives msg) d = ([], Returned (process_map_frame msg d))"
| "step cv Tick d = detect cv d"

fun run_node :: "cvlib \<Rightarrow> activity list \<Rightarrow> ObjDetector \<Rightarrow> ObjDetector run" where
  "run_node cv [] d = ([], Returned d)"
| "run_node cv (a # rest) d = and_then (step cv a d) (\<lambda>d'. run_node cv rest d')"

text \<open>The reference model: the three members the constructor computes.\<close>

definition reference_model :: "ObjDetector \<Rightarrow> Mat \<times> KeyPoint list \<times> Mat" where
  "reference_model d = (obj_img d, obj_keypoints d, obj_descriptors d)"

section \<open>The filter in the words of the specification\<close>

text \<open>
  The filter as the specification words it, for comparison with the code: the minimum
  distance over all matches, \<open>0\<close> on empty input, and the matches strictly under three
  times it.
\<close>

definition spec_min_dist :: "DMatch list \<Rightarrow> real" where
  "spec_min_dist matches =
     (if matches = [] then 0 else Min (set (map distance matches)))"

definition spec_filter :: "DMatch list \<Rightarrow> DMatch list" where
  "spec_filter matches = filter (\<lambda>m. distance m < 3 * spec_min_dist matches) matches"

definition mk_match :: "int \<Rightarrow> int \<Rightarrow> real \<Rightarrow> DMatch" where
  "mk_match q t d = \<lparr>queryIdx = q, trainIdx = t, imgIdx = 0, distance = d\<rparr>"

section \<open>A sample library and sample frames\<close>

text \<open>
  One concrete behaviour of the libraries, for the closed instances of the theorems
  below. A frame without pixel data has no keypoints; any other frame has four. A frame
  that is not \<open>bgr8\<close> cannot be decoded. Fewer than four correspondences make
  \<open>findHomography\<close> throw \<open>cv::Exception\<close>, as the assertion in OpenCV 2.4 does; four
  give the identity. A drawn line is logged in the cells of the image. The point
  conversions are exact on the small whole coordinates used here.
\<close>

definition four_keypoints :: "KeyPoint list" where
  "four_keypoints =
     [\<lparr>pt = (0, 0), kp_size = 31, kp_angle = 0\<rparr>, \<lparr>pt = (3, 0), kp_size = 31, kp_angle = 0\<rparr>,
      \<lparr>pt = (3, 2), kp_size = 31, kp_angle = 0\<rparr>, \<lparr>pt = (0, 2), kp_size = 31, kp_angle = 0\<rparr>]"

definition identity_H :: Mat where
  "identity_H = \<lparr>rows = 3, cols = 3, cells = [1, 0, 0, 0, 1, 0, 0, 0, 1]\<rparr>"

definition sample_cv :: cvlib where
  "sample_cv =
     \<lparr>imread = (\<lambda>name. Inr \<lparr>rows = 2, cols = 3, cells = [7]\<rparr>),
      toCvCopy = (\<lambda>msg enc.
        case msg of
          None \<Rightarrow> Inl other_exception
        | Some im \<Rightarrow>
            if img_encoding im = enc
            then Inr \<lparr>rows = int (img_height im), cols = int (img_width im),
                      cells = map (\<lambda>b. real (unat b)) (img_data im)\<rparr>
            else Inl cv_bridge_Exception),
      cvtColor = (\<lambda>m. Inr m),
      detector_detect = (\<lambda>m. Inr (if cells m = [] then [] else four_keypoints)),
      extractor_compute = (\<lambda>m kps. Inr (kps, \<lparr>rows = int (length kps), cols = 64, cells = []\<rparr>)),
      matcher_match = (\<lambda>q t.
        Inr (if rows q = 4 \<and> rows t = 4
             then [mk_match 0 0 10, mk_match 1 1 12, mk_match 2 2 15, mk_match 3 3 20]
             else [])),
      findHomography = (\<lambda>obj scene meth.
        if length obj < 4 then Inl cv_Exception else Inr identity_H),
      perspectiveTransform = (\<lambda>pts H. Inr pts),
      Point2f_of_CvPoint = (\<lambda>p. (real_of_int (fst p), real_of_int (snd p))),
      Point_of_Point2f = (\<lambda>p. (round (fst p), round (snd p))),
      cv_line = (\<lambda>m p q.
        Inr (m\<lparr>cells := cells m @ map real_of_int [fst p, snd p, fst q, snd q]\<rparr>)),
      imshow = (\<lambda>name m. Inr ()),
      waitKey = (\<lambda>delay. Inr (- 1))\<rparr>"

definition sample_detector :: ObjDetector where
  "sample_detector =
     \<lparr>obj_img = \<lparr>rows = 2, cols = 3, cells = [7]\<rparr>,
      obj_keypoints = four_keypoints,
      obj_descriptors = \<lparr>rows = 4, cols = 64, cells = []\<rparr>,
      haveImageFrame = False, haveMapFrame = False,
      lastImageFrame = None, lastMapFrame = None\<rparr>"

definition blank_frame :: Image where
  "blank_frame = \<lparr>img_height = 2, img_width = 3, img_encoding = ''bgr8'', img_data = []\<rparr>"

definition textured_frame :: Image where
  "textured_frame =
     \<lparr>img_height = 2, img_width = 3, img_encoding = ''bgr8'', img_data = [1, 2, 3]\<rparr>"

definition undecodable_frame :: Image where
  "undecodable_frame =
     \<lparr>img_height = 2, img_width = 3, img_encoding = ''yuv422'', img_data = [1, 2, 3]\<rparr>"

definition map_frame :: Image where
  "map_frame = \<lparr>img_height = 2, img_width = 3, img_encoding = ''32FC2'', img_data = [9]\<rparr>"

text \<open>
  A degenerate configuration, and two behaviours of the solver on it. The frame
  \<open>flat_frame\<close> has its four keypoints on one line, so the four corners of the reference
  are matched to four collinear points and no homography fits. \<open>throwing_cv\<close> signals
  this by throwing \<open>cv::Exception\<close>; \<open>zero_matrix_cv\<close> signals it the way
  \<open>cv::findHomography\<close> of OpenCV 2.4 does when its fit finds no model, by returning the
  zero matrix, through which every point projects to the origin.
\<close>

definition on_one_row :: "Point2f list \<Rightarrow> bool" where
  "on_one_row pts = (case pts of [] \<Rightarrow> True | p # ps \<Rightarrow> list_all (\<lambda>q. snd q = snd p) ps)"

definition row_keypoints :: "KeyPoint list" where
  "row_keypoints =
     [\<lparr>pt = (0, 0), kp_size = 31, kp_angle = 0\<rparr>, \<lparr>pt = (1, 0), kp_size = 31, kp_angle = 0\<rparr>,
      \<lparr>pt = (2, 0), kp_size = 31, kp_angle = 0\<rparr>, \<lparr>pt = (3, 0), kp_size = 31, kp_angle = 0\<rparr>]"

definition zero_H :: Mat where
  "zero_H = \<lparr>rows = 3, cols = 3, cells = [0, 0, 0, 0, 0, 0, 0, 0, 0]\<rparr>"

definition flat_frame :: Image where
  "flat_frame = \<lparr>img_height = 2, img_width = 3, img_encoding = ''bgr8'', img_data = [0]\<rparr>"

definition flat_bgr :: Mat where
  "flat_bgr = \<lparr>rows = 2, cols = 3, cells = [0]\<rparr>"

definition throwing_cv :: cvlib where
  "throwing_cv =
     sample_cv
       \<lparr>detector_detect := (\<lambda>m.
          Inr (if cells m = [] then []
               else if cells m = [0] then row_keypoints else four_keypoints)),
        findHomography := (\<lambda>obj scene meth.
          if length obj < 4 \<or> on_one_row obj \<or> on_one_row scene
          then Inl cv_Exception else Inr identity_H)\<rparr>"

definition zero_matrix_cv :: cvlib where
  "zero_matrix_cv =
     throwing_cv
       \<lparr>findHomography := (\<lambda>obj scene meth.
          if length obj < 4 then Inl cv_Exception
          else if on_one_row obj \<or> on_one_row scene then Inr zero_H else Inr identity_H),
        perspectiveTransform := (\<lambda>pts H.
          Inr (if cells H = cells zero_H then map (\<lambda>p. (0, 0)) pts else pts))\<rparr>"

text \<open>The calls of one run of \<open>find_object\<close> on each of the two frames with keypoints.\<close>

definition textured_bgr :: Mat where
  "textured_bgr = \<lparr>rows = 2, cols = 3, cells = [1, 2, 3]\<rparr>"

definition textured_run :: "event list" where
  "textured_run =
     [Call_toCvCopy (Some textured_frame) BGR8,
      Call_cvtColor textured_bgr,
      Call_detect textured_bgr,
      Call_compute textured_bgr four_keypoints,
      Call_match \<lparr>rows = 4, cols = 64, cells = []\<rparr> \<lparr>rows = 4, cols = 64, cells = []\<rparr>,
      Call_findHomography [(0, 0), (3, 0), (3, 2), (0, 2)] [(0, 0), (3, 0), (3, 2), (0, 2)]
        CV_RANSAC,
      Call_perspectiveTransform [(0, 0), (3, 0), (3, 2), (0, 2)] identity_H,
      Call_line textured_bgr (0, 0) (3, 0),
      Call_line (textured_bgr\<lparr>cells := [1, 2, 3, 0, 0, 3, 0]\<rparr>) (3, 0) (3, 2),
      Call_line (textured_bgr\<lparr>cells := [1, 2, 3, 0, 0, 3, 0, 3, 0, 3, 2]\<rparr>) (3, 2) (0, 2),
      Call_line (textured_bgr\<lparr>cells := [1, 2, 3, 0, 0, 3, 0, 3, 0, 3, 2, 3, 2, 0, 2]\<rparr>)
        (0, 2) (0, 0),
      Call_imshow ''OUT''
        (textured_bgr\<lparr>cells := [1, 2, 3, 0, 0, 3, 0, 3, 0, 3, 2, 3, 2, 0, 2, 0, 2, 0, 0]\<rparr>),
      Call_waitKey 1]"


section \<open>Unfolding the model\<close>

lemmas sample_defs =
  sample_cv_def sample_detector_def blank_frame_def textured_frame_def
  undecodable_frame_def map_frame_def four_keypoints_def identity_H_def mk_match_def BGR8_def
  on_one_row_def row_keypoints_def zero_H_def flat_frame_def flat_bgr_def throwing_cv_def zero_matrix_cv_def

lemmas model_defs =
  find_object_def front_end_def decode_frame_def outline_object_def try_body_def
  call_def and_then_def detect_def good_matches_of_def min_dist_of_def at_index_def
  obj_corners_of_def new_ObjDetector_def process_image_frame_def process_map_frame_def Let_def

section \<open>The match filter\<close>

lemma keep_below_filter:
  "keep_below d ms = filter (\<lambda>m. distance m < 3 * d) ms"
  by (induction ms) simp_all

lemma dist_range_snd:
  "snd (dist_range ms mx mn) = fold (\<lambda>m a. min (distance m) a) ms mn"
  by (induction ms arbitrary: mx mn) (simp_all add: Let_def min_def not_less)

lemma fold_min_le: "fold (\<lambda>m a. min (distance m) a) ms mn \<le> mn"
proof (induction ms arbitrary: mn)
  case Nil show ?case by simp
next
  case (Cons m ms)
  have "fold (\<lambda>m a. min (distance m) a) ms (min (distance m) mn) \<le> min (distance m) mn"
    by (rule Cons.IH)
  then show ?case by simp
qed

lemma fold_min_le_elem:
  "m \<in> set ms \<Longrightarrow> fold (\<lambda>m a. min (distance m) a) ms mn \<le> distance m"
proof (induction ms arbitrary: mn)
  case Nil then show ?case by simp
next
  case (Cons a ms)
  show ?case
  proof (cases "m = a")
    case True
    have "fold (\<lambda>m a. min (distance m) a) ms (min (distance a) mn) \<le> min (distance a) mn"
      by (rule fold_min_le)
    with True show ?thesis by simp
  next
    case False
    with Cons.prems have "m \<in> set ms" by simp
    from Cons.IH [OF this] show ?thesis by simp
  qed
qed

lemma fold_min_mem:
  "fold (\<lambda>m a. min (distance m) a) ms mn = mn \<or>
   (\<exists>m \<in> set ms. fold (\<lambda>m a. min (distance m) a) ms mn = distance m)"
proof (induction ms arbitrary: mn)
  case Nil show ?case by simp
next
  case (Cons a ms)
  from Cons.IH [of "min (distance a) mn"]
  show ?case by (auto simp: min_def split: if_splits)
qed

lemma min_dist_of_le_100: "min_dist_of ms \<le> 100"
  by (simp add: min_dist_of_def dist_range_snd fold_min_le)

lemma min_dist_of_capped:
  assumes "\<forall>m \<in> set ms. 100 \<le> distance m"
  shows "min_dist_of ms = 100"
proof -
  let ?v = "fold (\<lambda>m a. min (distance m) a) ms 100"
  have le: "?v \<le> 100" by (rule fold_min_le)
  from fold_min_mem [of ms 100] have "?v = 100"
  proof
    assume "?v = 100" then show ?thesis .
  next
    assume "\<exists>m \<in> set ms. ?v = distance m"
    then obtain m where "m \<in> set ms" "?v = distance m" by blast
    with assms le show ?thesis by force
  qed
  then show ?thesis by (simp add: min_dist_of_def dist_range_snd)
qed

lemma min_dist_of_is_Min:
  assumes low: "m0 \<in> set ms" "distance m0 \<le> 100"
  shows "min_dist_of ms = Min (set (map distance ms))"
proof -
  let ?v = "fold (\<lambda>m a. min (distance m) a) ms 100"
  have lb: "\<And>d. d \<in> set (map distance ms) \<Longrightarrow> ?v \<le> d"
    using fold_min_le_elem by auto
  have mem: "?v \<in> set (map distance ms)"
  proof -
    from fold_min_mem [of ms 100] show ?thesis
    proof
      assume v: "?v = 100"
      have "?v \<le> distance m0" using low(1) by (rule fold_min_le_elem)
      with v low(2) have "distance m0 = ?v" by simp
      with low(1) show ?thesis by (metis image_eqI set_map)
    next
      assume "\<exists>m \<in> set ms. ?v = distance m"
      then show ?thesis by auto
    qed
  qed
  have "Min (set (map distance ms)) = ?v"
    by (rule Min_eqI) (use lb mem in simp_all)
  then show ?thesis by (simp add: min_dist_of_def dist_range_snd)
qed

lemma filter_agrees:
  assumes "m0 \<in> set ms" "distance m0 \<le> 100"
  shows "good_matches_of ms = spec_filter ms"
proof -
  from assms have ne: "ms \<noteq> []" by auto
  have "min_dist_of ms = spec_min_dist ms"
    using min_dist_of_is_Min [OF assms] ne by (simp add: spec_min_dist_def)
  then show ?thesis
    by (simp add: good_matches_of_def spec_filter_def keep_below_filter)
qed

text \<open>
  C3: on matches with the distances 1, 2, 3, 10, 50 the loop finds the minimum 1, the
  bound is 3, and the good matches are the first two, those with distances 1 and 2.
\<close>

theorem filter_on_sample_distances:
  "map distance ms = [1, 2, 3, 10, 50] \<Longrightarrow>
     min_dist_of ms = 1 \<and> 3 * min_dist_of ms = 3 \<and>
     good_matches_of ms = take 2 ms \<and> map distance (good_matches_of ms) = [1, 2]"
  apply (clarsimp simp: map_eq_Cons_conv)
  apply (simp add: min_dist_of_def good_matches_of_def)
  done

theorem filter_on_sample_distances_witness:
  "map distance [mk_match 0 4 1, mk_match 1 3 2, mk_match 2 2 3, mk_match 3 1 10, mk_match 4 0 50]
     = [1, 2, 3, 10, 50] \<and>
   good_matches_of [mk_match 0 4 1, mk_match 1 3 2, mk_match 2 2 3, mk_match 3 1 10, mk_match 4 0 50]
     = [mk_match 0 4 1, mk_match 1 3 2]"
proof -
  have h: "map distance
      [mk_match 0 4 1, mk_match 1 3 2, mk_match 2 2 3, mk_match 3 1 10, mk_match 4 0 50]
      = [1, 2, 3, 10, 50]"
    by (simp add: mk_match_def)
  from filter_on_sample_distances [OF h] h show ?thesis by simp
qed

text \<open>
  C2: the specification's filter takes the minimum over all matches and keeps the matches
  under three times it. The loop of lines 95--100 starts \<open>min_dist\<close> at 100 and only
  lowers it, so when every distance is above 100 it stays 100 and the bound is 300: of
  two matches at distances 150 and 400 the code keeps the first only, where the minimum
  150 gives the bound 450 and keeps both. (Hamming distances of FREAK descriptors range
  up to 512.)
\<close>

theorem min_dist_start_value_caps_bound:
  "min_dist_of [mk_match 0 0 150, mk_match 1 1 400] = 100 \<and>
   good_matches_of [mk_match 0 0 150, mk_match 1 1 400] = [mk_match 0 0 150] \<and>
   spec_min_dist [mk_match 0 0 150, mk_match 1 1 400] = 150 \<and>
   spec_filter [mk_match 0 0 150, mk_match 1 1 400] = [mk_match 0 0 150, mk_match 1 1 400]"
  by (simp add: good_matches_of_def min_dist_of_def spec_filter_def spec_min_dist_def
      mk_match_def)

section \<open>Sequencing, find\_object and detect\<close>

lemma and_then_Returned:
  "snd (and_then m f) = Returned y \<Longrightarrow> \<exists>a. snd m = Returned a \<and> snd (f a) = Returned y"
  by (auto simp: and_then_def split: outcome.splits)

lemma and_then_simps:
  "and_then (t, Returned a) f = (t @ fst (f a), snd (f a))"
  "and_then (t, Thrown x) f = (t, Thrown x)"
  "and_then (t, Exited n) f = (t, Exited n)"
  "and_then (t, Undefined_behaviour) f = (t, Undefined_behaviour)"
  by (simp_all add: and_then_def)

lemma and_then_assoc:
  "and_then (and_then m f) g = and_then m (\<lambda>a. and_then (f a) g)"
  by (cases m; cases "snd m") (auto simp: and_then_def split: outcome.splits)

lemma and_then_case_prod:
  "and_then (case x of (a, b) \<Rightarrow> F a b) g = (case x of (a, b) \<Rightarrow> and_then (F a b) g)"
  by (cases x) simp

lemma find_object_Returned:
  assumes ret: "snd (find_object cv d msg mapMsg) = Returned r"
  shows "r = (d, Point32 0 0 0)"
proof -
  from ret obtain a where
    a: "snd ((\<lambda>(color, obj, scene).
          and_then (outline_object cv d color obj scene) (\<lambda>color'.
          and_then (call (Call_imshow ''OUT'' color') (imshow cv ''OUT'' color')) (\<lambda>_.
          and_then (call (Call_waitKey 1) (waitKey cv 1)) (\<lambda>_.
          ([], Returned (d, Point32 0 0 0)))))) a) = Returned r"
    unfolding find_object_def by (blast dest: and_then_Returned)
  obtain color obj scene where "a = (color, obj, scene)" by (cases a)
  with a have "snd (and_then (outline_object cv d color obj scene) (\<lambda>color'.
          and_then (call (Call_imshow ''OUT'' color') (imshow cv ''OUT'' color')) (\<lambda>_.
          and_then (call (Call_waitKey 1) (waitKey cv 1)) (\<lambda>_.
          ([], Returned (d, Point32 0 0 0)))))) = Returned r" by simp
  then obtain c where "snd (and_then (call (Call_imshow ''OUT'' c) (imshow cv ''OUT'' c)) (\<lambda>_.
          and_then (call (Call_waitKey 1) (waitKey cv 1)) (\<lambda>_.
          ([], Returned (d, Point32 0 0 0))))) = Returned r"
    by (blast dest: and_then_Returned)
  then have "snd (and_then (call (Call_waitKey 1) (waitKey cv 1)) (\<lambda>_.
          ([], Returned (d, Point32 0 0 0)))) = Returned r"
    by (blast dest: and_then_Returned)
  then have "snd ([]::event list, Returned (d, Point32 0 0 0)) = Returned r"
    by (blast dest: and_then_Returned)
  then show ?thesis by simp
qed

lemma detect_Returned:
  assumes "snd (detect cv d) = Returned d'"
  shows "d' = (if lastImageFrame d = None then d
               else d\<lparr>lastImageFrame := None, lastMapFrame := None\<rparr>)"
proof (cases "lastImageFrame d = None")
  case True
  with assms show ?thesis by (simp add: detect_def)
next
  case False
  with assms obtain r where
    r: "snd (find_object cv d (lastImageFrame d) (lastMapFrame d)) = Returned r"
    and fin: "snd ((\<lambda>(d', object_loc).
        ([]::event list, Returned (d'\<lparr>lastImageFrame := None, lastMapFrame := None\<rparr>))) r) = Returned d'"
    unfolding detect_def by (auto dest: and_then_Returned)
  from find_object_Returned [OF r] fin False show ?thesis by auto
qed

lemma detect_pending:
  assumes "lastImageFrame d \<noteq> None"
    and "find_object cv d (lastImageFrame d) (lastMapFrame d) = (t, Returned r)"
  shows "detect cv d = (t, Returned (d\<lparr>lastImageFrame := None, lastMapFrame := None\<rparr>))"
proof -
  from assms(2) have "snd (find_object cv d (lastImageFrame d) (lastMapFrame d)) = Returned r"
    by simp
  then have "r = (d, Point32 0 0 0)" by (rule find_object_Returned)
  with assms show ?thesis by (simp add: detect_def and_then_simps)
qed

lemma reference_model_slot [simp]:
  "reference_model (d\<lparr>lastImageFrame := x\<rparr>) = reference_model d"
  "reference_model (d\<lparr>lastMapFrame := y\<rparr>) = reference_model d"
  by (simp_all add: reference_model_def)

lemma step_reference_model:
  "snd (step cv a d) = Returned d' \<Longrightarrow> reference_model d' = reference_model d"
proof (cases a)
  case (Image_arrives msg)
  assume "snd (step cv a d) = Returned d'"
  with Image_arrives show ?thesis by (auto simp: process_image_frame_def)
next
  case (Map_arrives msg)
  assume "snd (step cv a d) = Returned d'"
  with Map_arrives show ?thesis by (auto simp: process_map_frame_def)
next
  case Tick
  assume "snd (step cv a d) = Returned d'"
  with Tick have "snd (detect cv d) = Returned d'" by simp
  from detect_Returned [OF this] show ?thesis by (simp split: if_splits)
qed

lemma run_node_reference_model:
  "snd (run_node cv acts d) = Returned d' \<Longrightarrow> reference_model d' = reference_model d"
proof (induction acts arbitrary: d)
  case Nil
  then show ?case by simp
next
  case (Cons a acts)
  from Cons.prems obtain d1 where
    s: "snd (step cv a d) = Returned d1" and r: "snd (run_node cv acts d1) = Returned d'"
    by (auto dest: and_then_Returned)
  from Cons.IH [OF r] step_reference_model [OF s] show ?case by simp
qed

text \<open>
  C1: whenever \<open>find_object\<close> returns, the point it returns is \<open>(0, 0, 0)\<close>, for every
  behaviour of the libraries: whatever \<open>findHomography\<close> and \<open>perspectiveTransform\<close>
  compute or throw.
\<close>

theorem find_object_returns_placeholder:
  "snd (find_object cv d msg mapMsg) = Returned (d', p) \<Longrightarrow> p = Point32 0 0 0"
  by (drule find_object_Returned) simp

theorem find_object_returns_placeholder_witness:
  "snd (find_object sample_cv sample_detector (Some textured_frame) None)
     = Returned (sample_detector, Point32 0 0 0) \<and>
   snd (find_object sample_cv sample_detector (Some blank_frame) None)
     = Returned (sample_detector, Point32 0 0 0)"
proof -
  obtain d1 p1 where found:
    "snd (find_object sample_cv sample_detector (Some textured_frame) None) = Returned (d1, p1)"
    and d1: "d1 = sample_detector"
    by (simp add: model_defs sample_defs)
  obtain d2 p2 where not_found:
    "snd (find_object sample_cv sample_detector (Some blank_frame) None) = Returned (d2, p2)"
    and d2: "d2 = sample_detector"
    by (simp add: model_defs sample_defs)
  from find_object_returns_placeholder [OF found] find_object_returns_placeholder [OF not_found]
    found not_found d1 d2
  show ?thesis by simp
qed

section \<open>The estimation block\<close>

lemma try_body_not_Thrown: "snd (try_body cv d color obj scene) \<noteq> Thrown x"
  by (simp add: try_body_def Let_def split: sum.splits prod.splits)

lemma outline_object_catches: "snd (outline_object cv d color obj scene) \<noteq> Thrown cv_Exception"
proof
  assume thrown: "snd (outline_object cv d color obj scene) = Thrown cv_Exception"
  show False
  proof (cases "snd (try_body cv d color obj scene)")
    case (Returned a)
    obtain color' r where a: "a = (color', r)" by (cases a)
    from thrown Returned a show False
      by (auto simp: outline_object_def and_then_def split: option.splits if_splits)
  next
    case (Thrown x)
    with try_body_not_Thrown show False by blast
  next
    case (Exited n)
    with thrown show False by (simp add: outline_object_def and_then_def)
  next
    case Undefined_behaviour
    with thrown show False by (simp add: outline_object_def and_then_def)
  qed
qed

lemma try_body_first_call:
  "\<exists>t. fst (try_body cv d color obj scene) = Call_findHomography obj scene CV_RANSAC # t"
  by (simp add: try_body_def Let_def split: sum.splits prod.splits)

lemma outline_object_first_call:
  "\<exists>t. fst (outline_object cv d color obj scene) = Call_findHomography obj scene CV_RANSAC # t"
proof -
  from try_body_first_call obtain t where
    t: "fst (try_body cv d color obj scene) = Call_findHomography obj scene CV_RANSAC # t"
    by blast
  then show ?thesis
    by (cases "snd (try_body cv d color obj scene)")
       (simp_all add: outline_object_def and_then_def)
qed

lemma outline_object_not_found:
  "findHomography cv obj scene CV_RANSAC = Inl cv_Exception \<Longrightarrow>
     outline_object cv d color obj scene = ([Call_findHomography obj scene CV_RANSAC], Returned color)"
  by (simp add: outline_object_def try_body_def and_then_def)

text \<open>
  C4, as the specification states it: with fewer than four correspondences the estimation
  gives its not-found outcome without calling the robust solver. The code has no such
  check: line 124 calls \<open>cv::findHomography\<close> with \<open>CV_RANSAC\<close> on the point vectors
  whatever their length. A frame without keypoints gives no correspondences, and the call
  is made on the two empty vectors.
\<close>

theorem short_input_reaches_solver:
  "front_end sample_cv sample_detector (Some blank_frame)
     = ([Call_toCvCopy (Some blank_frame) BGR8,
         Call_cvtColor \<lparr>rows = 2, cols = 3, cells = []\<rparr>,
         Call_detect \<lparr>rows = 2, cols = 3, cells = []\<rparr>,
         Call_compute \<lparr>rows = 2, cols = 3, cells = []\<rparr> [],
         Call_match \<lparr>rows = 4, cols = 64, cells = []\<rparr> \<lparr>rows = 0, cols = 64, cells = []\<rparr>],
        Returned (\<lparr>rows = 2, cols = 3, cells = []\<rparr>, [], [])) \<and>
   length ([] :: Point2f list) < 4 \<and>
   fst (outline_object sample_cv sample_detector \<lparr>rows = 2, cols = 3, cells = []\<rparr> [] [])
     = [Call_findHomography [] [] CV_RANSAC] \<and>
   Call_findHomography [] [] CV_RANSAC
     \<in> set (fst (find_object sample_cv sample_detector (Some blank_frame) None))"
  by (simp add: model_defs sample_defs)

text \<open>
  C4, amended: with fewer than four correspondences the block still calls
  \<open>cv::findHomography(obj, scene, CV_RANSAC)\<close> first; when that call throws
  \<open>cv::Exception\<close> the handler of line 142 ends the block normally with nothing drawn
  and no further call; and no \<open>cv::Exception\<close> ever leaves the block.
\<close>

theorem short_input_caught:
  "length obj < 4 \<Longrightarrow>
     (\<exists>t. fst (outline_object cv d color obj scene)
             = Call_findHomography obj scene CV_RANSAC # t) \<and>
     (findHomography cv obj scene CV_RANSAC = Inl cv_Exception \<longrightarrow>
        outline_object cv d color obj scene
          = ([Call_findHomography obj scene CV_RANSAC], Returned color)) \<and>
     snd (outline_object cv d color obj scene) \<noteq> Thrown cv_Exception"
  using outline_object_first_call outline_object_not_found outline_object_catches by blast

theorem short_input_caught_witness:
  "length ([] :: Point2f list) < 4 \<and>
   findHomography sample_cv [] [] CV_RANSAC = Inl cv_Exception \<and>
   outline_object sample_cv sample_detector \<lparr>rows = 2, cols = 3, cells = []\<rparr> [] []
     = ([Call_findHomography [] [] CV_RANSAC], Returned \<lparr>rows = 2, cols = 3, cells = []\<rparr>)"
proof -
  have short: "length ([] :: Point2f list) < 4" by simp
  have throws: "findHomography sample_cv [] [] CV_RANSAC = Inl cv_Exception"
    by (simp add: sample_cv_def)
  from short_input_caught [OF short, of sample_cv sample_detector
      "\<lparr>rows = 2, cols = 3, cells = []\<rparr>" "[]"] short throws
  show ?thesis by blast
qed




section \<open>Decoding failure\<close>

lemma decode_frame_fails:
  "toCvCopy cv msg BGR8 = Inl cv_bridge_Exception \<Longrightarrow>
     decode_frame cv msg = ([Call_toCvCopy msg BGR8, Call_ROS_ERROR], Exited (- 1))"
  by (simp add: decode_frame_def)

text \<open>
  C6: when \<open>toCvCopy\<close> throws \<open>cv_bridge::Exception\<close> on the frame, \<open>find_object\<close>
  logs the error and the process exits with \<open>exit(-1)\<close>: no later call (conversion,
  detection, matching, display) is made on that frame, and neither \<open>detect\<close> nor the
  loop returns.
\<close>

theorem undecodable_frame_exits:
  assumes "toCvCopy cv msg BGR8 = Inl cv_bridge_Exception"
  shows "find_object cv d msg mapMsg = ([Call_toCvCopy msg BGR8, Call_ROS_ERROR], Exited (- 1)) \<and>
         (lastImageFrame d = msg \<and> msg \<noteq> None \<longrightarrow>
            detect cv d = ([Call_toCvCopy msg BGR8, Call_ROS_ERROR], Exited (- 1)) \<and>
            run_node cv (Tick # rest) d = ([Call_toCvCopy msg BGR8, Call_ROS_ERROR], Exited (- 1)))"
proof -
  have fo: "find_object cv d msg m = ([Call_toCvCopy msg BGR8, Call_ROS_ERROR], Exited (- 1))"
    for m
    by (simp add: find_object_def front_end_def decode_frame_fails [OF assms] and_then_simps)
  have det: "detect cv d = ([Call_toCvCopy msg BGR8, Call_ROS_ERROR], Exited (- 1))"
    if "lastImageFrame d = msg" "msg \<noteq> None"
    using that fo [of "lastMapFrame d"] by (simp add: detect_def and_then_simps)
  have "run_node cv (Tick # rest) d = ([Call_toCvCopy msg BGR8, Call_ROS_ERROR], Exited (- 1))"
    if "lastImageFrame d = msg" "msg \<noteq> None"
    using det [OF that] by (simp add: and_then_simps)
  with fo det show ?thesis by simp
qed

theorem undecodable_frame_exits_witness:
  "toCvCopy sample_cv (Some undecodable_frame) BGR8 = Inl cv_bridge_Exception \<and>
   lastImageFrame (process_image_frame (Some undecodable_frame) sample_detector)
     = Some undecodable_frame \<and>
   run_node sample_cv [Tick, Image_arrives (Some textured_frame), Tick]
       (process_image_frame (Some undecodable_frame) sample_detector)
     = ([Call_toCvCopy (Some undecodable_frame) BGR8, Call_ROS_ERROR], Exited (- 1))"
proof -
  have h: "toCvCopy sample_cv (Some undecodable_frame) BGR8 = Inl cv_bridge_Exception"
    by (simp add: sample_defs)
  have p: "lastImageFrame (process_image_frame (Some undecodable_frame) sample_detector)
     = Some undecodable_frame"
    by (simp add: process_image_frame_def)
  from undecodable_frame_exits [OF h,
      of "process_image_frame (Some undecodable_frame) sample_detector" None
         "[Image_arrives (Some textured_frame), Tick]"] h p
  show ?thesis by (simp add: and_then_simps)
qed

section \<open>The frame slot\<close>

lemma and_then_first_call:
  "fst m = e # t \<Longrightarrow> \<exists>t'. fst (and_then m f) = e # t'"
  by (cases "snd m") (simp_all add: and_then_def)

lemma decode_frame_first_call:
  "\<exists>t. fst (decode_frame cv msg) = Call_toCvCopy msg BGR8 # t"
  by (simp add: decode_frame_def split: sum.splits)

lemma find_object_first_call:
  "\<exists>t. fst (find_object cv d msg mapMsg) = Call_toCvCopy msg BGR8 # t"
proof -
  from decode_frame_first_call obtain t0 where
    "fst (decode_frame cv msg) = Call_toCvCopy msg BGR8 # t0" by blast
  then obtain t1 where "fst (front_end cv d msg) = Call_toCvCopy msg BGR8 # t1"
    unfolding front_end_def by (blast dest: and_then_first_call)
  then show ?thesis
    unfolding find_object_def by (blast dest: and_then_first_call)
qed

lemma detect_first_call:
  assumes "lastImageFrame d \<noteq> None"
  shows "\<exists>t. fst (detect cv d) = Call_toCvCopy (lastImageFrame d) BGR8 # t"
proof -
  from find_object_first_call obtain t0 where
    "fst (find_object cv d (lastImageFrame d) (lastMapFrame d))
       = Call_toCvCopy (lastImageFrame d) BGR8 # t0" by blast
  with assms show ?thesis
    unfolding detect_def by (auto dest: and_then_first_call)
qed

lemma front_end_map_slot [simp]:
  "front_end cv (d\<lparr>lastMapFrame := m\<rparr>) msg = front_end cv d msg"
  by (simp add: front_end_def)

lemma outline_object_map_slot [simp]:
  "outline_object cv (d\<lparr>lastMapFrame := m\<rparr>) color obj scene
     = outline_object cv d color obj scene"
  by (simp add: outline_object_def try_body_def Let_def cong: sum.case_cong)

lemma detect_unfold:
  assumes "lastImageFrame d \<noteq> None"
  shows "detect cv d =
     and_then (front_end cv d (lastImageFrame d)) (\<lambda>(color, obj, scene).
     and_then (outline_object cv d color obj scene) (\<lambda>color'.
     and_then (call (Call_imshow ''OUT'' color') (imshow cv ''OUT'' color')) (\<lambda>_.
     and_then (call (Call_waitKey 1) (waitKey cv 1)) (\<lambda>_.
     ([], Returned (d\<lparr>lastImageFrame := None, lastMapFrame := None\<rparr>))))))"
  using assms
  by (simp add: detect_def find_object_def and_then_assoc and_then_case_prod and_then_simps)

lemma detect_map_slot:
  assumes "lastImageFrame d \<noteq> None"
  shows "detect cv (d\<lparr>lastMapFrame := m1\<rparr>) = detect cv (d\<lparr>lastMapFrame := m2\<rparr>)"
proof -
  have "detect cv (d\<lparr>lastMapFrame := m\<rparr>) =
     and_then (front_end cv d (lastImageFrame d)) (\<lambda>(color, obj, scene).
     and_then (outline_object cv d color obj scene) (\<lambda>color'.
     and_then (call (Call_imshow ''OUT'' color') (imshow cv ''OUT'' color')) (\<lambda>_.
     and_then (call (Call_waitKey 1) (waitKey cv 1)) (\<lambda>_.
     ([], Returned (d\<lparr>lastImageFrame := None, lastMapFrame := None\<rparr>))))))" for m
    using assms detect_unfold [of "d\<lparr>lastMapFrame := m\<rparr>" cv] by simp
  then show ?thesis by simp
qed

lemma and_then_const:
  "and_then m (\<lambda>_. ([], Returned v)) =
     (fst m, case snd m of Returned a \<Rightarrow> Returned v | Thrown x \<Rightarrow> Thrown x
             | Exited n \<Rightarrow> Exited n | Undefined_behaviour \<Rightarrow> Undefined_behaviour)"
  by (cases "snd m") (simp_all add: and_then_def)

lemma find_object_detect_factor:
  "\<exists>P :: int run.
     (\<forall>mm. find_object cv d msg mm = and_then P (\<lambda>_. ([], Returned (d, Point32 0 0 0)))) \<and>
     (\<forall>m. lastImageFrame d = msg \<longrightarrow> msg \<noteq> None \<longrightarrow>
        detect cv (d\<lparr>lastMapFrame := m\<rparr>)
          = and_then P (\<lambda>_. ([], Returned (d\<lparr>lastImageFrame := None, lastMapFrame := None\<rparr>))))"
proof (intro exI conjI allI impI)
  let ?P = "and_then (front_end cv d msg) (\<lambda>(color, obj, scene).
     and_then (outline_object cv d color obj scene) (\<lambda>color'.
     and_then (call (Call_imshow ''OUT'' color') (imshow cv ''OUT'' color')) (\<lambda>_.
     call (Call_waitKey 1) (waitKey cv 1))))"
  show "find_object cv d msg mm = and_then ?P (\<lambda>_. ([], Returned (d, Point32 0 0 0)))" for mm
    by (simp add: find_object_def and_then_assoc and_then_case_prod)
  show "detect cv (d\<lparr>lastMapFrame := m\<rparr>)
          = and_then ?P (\<lambda>_. ([], Returned (d\<lparr>lastImageFrame := None, lastMapFrame := None\<rparr>)))"
    if "lastImageFrame d = msg" "msg \<noteq> None" for m
    using that detect_unfold [of "d\<lparr>lastMapFrame := m\<rparr>" cv]
    by (simp add: and_then_assoc and_then_case_prod)
qed

lemma detect_runs_find_object:
  assumes "lastImageFrame d \<noteq> None"
  shows "detect cv (d\<lparr>lastMapFrame := m\<rparr>) =
     (fst (find_object cv d (lastImageFrame d) mm),
      case snd (find_object cv d (lastImageFrame d) mm) of
        Returned r \<Rightarrow> Returned (d\<lparr>lastImageFrame := None, lastMapFrame := None\<rparr>)
      | Thrown x \<Rightarrow> Thrown x
      | Exited n \<Rightarrow> Exited n
      | Undefined_behaviour \<Rightarrow> Undefined_behaviour)"
proof -
  from find_object_detect_factor [of cv d "lastImageFrame d"] assms obtain P :: "int run" where
    fo: "find_object cv d (lastImageFrame d) mm
           = and_then P (\<lambda>_. ([], Returned (d, Point32 0 0 0)))"
    and det: "detect cv (d\<lparr>lastMapFrame := m\<rparr>)
           = and_then P (\<lambda>_. ([], Returned (d\<lparr>lastImageFrame := None, lastMapFrame := None\<rparr>)))"
    by blast
  show ?thesis
    unfolding fo det and_then_const by (cases "snd P") simp_all
qed

text \<open>
  C7: a tick on an empty slot makes no call and changes nothing; whenever \<open>detect\<close>
  returns, the slot is empty; and whenever \<open>find_object\<close> returns on the pending frame,
  with the object found or not, \<open>detect\<close> returns with the slot cleared.
\<close>

theorem frame_slot_empty_after_tick:
  "(lastImageFrame d = None \<longrightarrow> detect cv d = ([], Returned d)) \<and>
   (snd (detect cv d) = Returned d' \<longrightarrow> lastImageFrame d' = None) \<and>
   (lastImageFrame d \<noteq> None \<and>
    find_object cv d (lastImageFrame d) (lastMapFrame d) = (t, Returned r) \<longrightarrow>
      detect cv d = (t, Returned (d\<lparr>lastImageFrame := None, lastMapFrame := None\<rparr>)))"
proof -
  have idle: "detect cv d = ([], Returned d)" if "lastImageFrame d = None"
    using that by (simp add: detect_def)
  have empty: "lastImageFrame d' = None" if "snd (detect cv d) = Returned d'"
    using detect_Returned [OF that] by (simp split: if_splits)
  have cleared: "detect cv d = (t, Returned (d\<lparr>lastImageFrame := None, lastMapFrame := None\<rparr>))"
    if "lastImageFrame d \<noteq> None"
      "find_object cv d (lastImageFrame d) (lastMapFrame d) = (t, Returned r)"
    using that by (rule detect_pending)
  from idle empty cleared show ?thesis by blast
qed

theorem frame_slot_empty_after_tick_witness:
  "lastImageFrame sample_detector = None \<and>
   detect sample_cv sample_detector = ([], Returned sample_detector) \<and>
   snd (detect sample_cv (process_image_frame (Some textured_frame) sample_detector))
     = Returned sample_detector \<and>
   snd (detect sample_cv (process_image_frame (Some blank_frame) sample_detector))
     = Returned sample_detector"
proof -
  have idle: "lastImageFrame sample_detector = None"
    by (simp add: sample_detector_def)
  have found:
    "snd (detect sample_cv (process_image_frame (Some textured_frame) sample_detector))
       = Returned sample_detector"
    by (simp add: model_defs sample_defs)
  have not_found:
    "snd (detect sample_cv (process_image_frame (Some blank_frame) sample_detector))
       = Returned sample_detector"
    by (simp add: model_defs sample_defs)
  from frame_slot_empty_after_tick [of sample_detector sample_cv]
    frame_slot_empty_after_tick
      [of "process_image_frame (Some textured_frame) sample_detector" sample_cv sample_detector]
    idle found not_found
  show ?thesis by simp
qed

text \<open>
  C8: a second frame arriving before the tick replaces the first in the slot. The tick
  passes the second frame to \<open>find_object\<close>, and the whole run, calls and outcome, is the
  run in which the first frame never arrived.
\<close>

theorem latest_frame_wins:
  "process_image_frame (Some f2) (process_image_frame f1 d) = process_image_frame (Some f2) d \<and>
   lastImageFrame (process_image_frame (Some f2) (process_image_frame f1 d)) = Some f2 \<and>
   detect cv (process_image_frame (Some f2) (process_image_frame f1 d))
     = and_then (find_object cv (process_image_frame (Some f2) d) (Some f2) (lastMapFrame d))
         (\<lambda>(d', object_loc).
            ([], Returned (d'\<lparr>lastImageFrame := None, lastMapFrame := None\<rparr>))) \<and>
   run_node cv (Image_arrives f1 # Image_arrives (Some f2) # rest) d
     = run_node cv (Image_arrives (Some f2) # rest) d"
  by (simp add: process_image_frame_def detect_def and_then_simps)

text \<open>
  C9: the constructor sets the three reference members from the calibration image, and
  every call of \<open>find_object\<close> and of \<open>detect\<close> that returns, and every run of the loop,
  leaves them as they were.
\<close>

theorem reference_model_never_modified:
  "(new_ObjDetector cv calib_image_name = (t0, Returned d0) \<longrightarrow>
      (\<exists>detected. imread cv calib_image_name = Inr (obj_img d0) \<and>
         detector_detect cv (obj_img d0) = Inr detected \<and>
         extractor_compute cv (obj_img d0) detected
           = Inr (obj_keypoints d0, obj_descriptors d0))) \<and>
   (snd (find_object cv d msg mapMsg) = Returned (d1, p) \<longrightarrow>
      reference_model d1 = reference_model d) \<and>
   (snd (detect cv d) = Returned d2 \<longrightarrow> reference_model d2 = reference_model d) \<and>
   (snd (run_node cv acts d) = Returned d3 \<longrightarrow> reference_model d3 = reference_model d)"
proof -
  have ctor: "\<exists>detected. imread cv calib_image_name = Inr (obj_img d0) \<and>
         detector_detect cv (obj_img d0) = Inr detected \<and>
         extractor_compute cv (obj_img d0) detected
           = Inr (obj_keypoints d0, obj_descriptors d0)"
    if "new_ObjDetector cv calib_image_name = (t0, Returned d0)"
    using that
    by (auto simp: new_ObjDetector_def and_then_def call_def
        split: sum.splits outcome.splits prod.splits)
  have fo: "reference_model d1 = reference_model d"
    if "snd (find_object cv d msg mapMsg) = Returned (d1, p)"
    using find_object_Returned [OF that] by simp
  have det: "reference_model d2 = reference_model d" if "snd (detect cv d) = Returned d2"
    using detect_Returned [OF that] by (simp split: if_splits)
  from ctor fo det run_node_reference_model show ?thesis by blast
qed

theorem reference_model_never_modified_witness:
  "snd (new_ObjDetector sample_cv ''calib.png'') = Returned sample_detector \<and>
   snd (run_node sample_cv
          [Image_arrives (Some textured_frame), Map_arrives (Some map_frame), Tick,
           Image_arrives (Some blank_frame), Tick] sample_detector)
     = Returned sample_detector \<and>
   snd (detect sample_cv (process_image_frame (Some textured_frame) sample_detector))
     = Returned sample_detector \<and>
   snd (find_object sample_cv sample_detector (Some textured_frame) None)
     = Returned (sample_detector, Point32 0 0 0) \<and>
   reference_model sample_detector
     = (\<lparr>rows = 2, cols = 3, cells = [7]\<rparr>, four_keypoints, \<lparr>rows = 4, cols = 64, cells = []\<rparr>)"
proof -
  have ctor: "snd (new_ObjDetector sample_cv ''calib.png'') = Returned sample_detector"
    by (simp add: model_defs sample_defs)
  have fo: "snd (find_object sample_cv sample_detector (Some textured_frame) None)
     = Returned (sample_detector, Point32 0 0 0)"
    by (simp add: model_defs sample_defs)
  have det: "snd (detect sample_cv (process_image_frame (Some textured_frame) sample_detector))
     = Returned sample_detector"
    by (simp add: model_defs sample_defs)
  have run: "snd (run_node sample_cv
          [Image_arrives (Some textured_frame), Map_arrives (Some map_frame), Tick,
           Image_arrives (Some blank_frame), Tick] sample_detector)
     = Returned sample_detector"
    by (simp add: model_defs sample_defs)
  have rm: "reference_model sample_detector
     = (\<lparr>rows = 2, cols = 3, cells = [7]\<rparr>, four_keypoints, \<lparr>rows = 4, cols = 64, cells = []\<rparr>)"
    by (simp add: reference_model_def sample_detector_def)
  from reference_model_never_modified
      [of sample_cv "''calib.png''" _ sample_detector sample_detector "Some textured_frame" None
          sample_detector "Point32 0 0 0" sample_detector
          "[Image_arrives (Some textured_frame), Map_arrives (Some map_frame), Tick,
            Image_arrives (Some blank_frame), Tick]" sample_detector]
    ctor fo det run rm
  show ?thesis by simp
qed

text \<open>
  C10: \<open>find_object\<close> makes the same calls and ends the same way whatever map message it
  is given. With an image frame pending, \<open>detect\<close> does the same whatever the map slot
  holds, also when it is empty: it makes exactly the calls of \<open>find_object\<close> on the
  pending frame, in their order, ends as \<open>find_object\<close> ends, and where that returns it
  returns with both slots cleared.
\<close>

theorem map_frame_is_ignored:
  "find_object cv d msg mapMsg1 = find_object cv d msg mapMsg2 \<and>
   (lastImageFrame d \<noteq> None \<longrightarrow>
      detect cv (d\<lparr>lastMapFrame := m1\<rparr>) = detect cv (d\<lparr>lastMapFrame := m2\<rparr>) \<and>
      (\<exists>t. fst (detect cv (d\<lparr>lastMapFrame := None\<rparr>))
             = Call_toCvCopy (lastImageFrame d) BGR8 # t) \<and>
      fst (detect cv (d\<lparr>lastMapFrame := m1\<rparr>))
        = fst (find_object cv d (lastImageFrame d) mapMsg1) \<and>
      snd (detect cv (d\<lparr>lastMapFrame := m1\<rparr>))
        = (case snd (find_object cv d (lastImageFrame d) mapMsg1) of
             Returned r \<Rightarrow> Returned (d\<lparr>lastImageFrame := None, lastMapFrame := None\<rparr>)
           | Thrown x \<Rightarrow> Thrown x
           | Exited n \<Rightarrow> Exited n
           | Undefined_behaviour \<Rightarrow> Undefined_behaviour))"
proof -
  have "find_object cv d msg mapMsg1 = find_object cv d msg mapMsg2"
    by (simp add: find_object_def)
  moreover have "detect cv (d\<lparr>lastMapFrame := m1\<rparr>) = detect cv (d\<lparr>lastMapFrame := m2\<rparr>)"
    if "lastImageFrame d \<noteq> None"
    using that by (rule detect_map_slot)
  moreover have "\<exists>t. fst (detect cv (d\<lparr>lastMapFrame := None\<rparr>))
             = Call_toCvCopy (lastImageFrame d) BGR8 # t"
    if "lastImageFrame d \<noteq> None"
    using that detect_first_call [of "d\<lparr>lastMapFrame := None\<rparr>" cv] by simp
  moreover have "fst (detect cv (d\<lparr>lastMapFrame := m1\<rparr>))
        = fst (find_object cv d (lastImageFrame d) mapMsg1)"
    if "lastImageFrame d \<noteq> None"
    using detect_runs_find_object [OF that, of cv m1 mapMsg1] by simp
  moreover have "snd (detect cv (d\<lparr>lastMapFrame := m1\<rparr>))
        = (case snd (find_object cv d (lastImageFrame d) mapMsg1) of
             Returned r \<Rightarrow> Returned (d\<lparr>lastImageFrame := None, lastMapFrame := None\<rparr>)
           | Thrown x \<Rightarrow> Thrown x
           | Exited n \<Rightarrow> Exited n
           | Undefined_behaviour \<Rightarrow> Undefined_behaviour)"
    if "lastImageFrame d \<noteq> None"
    using detect_runs_find_object [OF that, of cv m1 mapMsg1] by simp
  ultimately show ?thesis by blast
qed

theorem map_frame_is_ignored_witness:
  "lastImageFrame (process_image_frame (Some textured_frame) sample_detector) \<noteq> None \<and>
   lastMapFrame (process_image_frame (Some textured_frame) sample_detector) = None \<and>
   detect sample_cv
       (process_map_frame (Some map_frame) (process_image_frame (Some textured_frame) sample_detector))
     = detect sample_cv (process_image_frame (Some textured_frame) sample_detector) \<and>
   detect sample_cv (process_image_frame (Some textured_frame) sample_detector)
     = (textured_run, Returned sample_detector) \<and>
   length textured_run = 13"
proof -
  let ?d = "process_image_frame (Some textured_frame) sample_detector"
  have pending: "lastImageFrame ?d \<noteq> None"
    by (simp add: process_image_frame_def)
  have frame: "lastImageFrame ?d = Some textured_frame"
    by (simp add: process_image_frame_def)
  have no_map: "lastMapFrame ?d = None"
    by (simp add: process_image_frame_def sample_detector_def)
  have with_map: "process_map_frame (Some map_frame) ?d = ?d\<lparr>lastMapFrame := Some map_frame\<rparr>"
    by (simp add: process_map_frame_def)
  have without: "?d\<lparr>lastMapFrame := None\<rparr> = ?d"
    by (simp add: process_image_frame_def sample_detector_def)
  have cleared: "?d\<lparr>lastImageFrame := None, lastMapFrame := None\<rparr> = sample_detector"
    by (simp add: process_image_frame_def sample_detector_def)
  have pipeline: "find_object sample_cv ?d (Some textured_frame) None
      = (textured_run, Returned (?d, Point32 0 0 0))"
    by (simp add: model_defs sample_defs textured_run_def textured_bgr_def)
  have len: "length textured_run = 13"
    by (simp add: textured_run_def)
  note inst = map_frame_is_ignored [of sample_cv ?d "Some textured_frame" None None]
  from inst [of "Some map_frame" None] pending
  have same: "detect sample_cv (?d\<lparr>lastMapFrame := Some map_frame\<rparr>)
          = detect sample_cv (?d\<lparr>lastMapFrame := None\<rparr>)"
    by blast
  from inst [of None None] pending
  have calls: "fst (detect sample_cv (?d\<lparr>lastMapFrame := None\<rparr>))
          = fst (find_object sample_cv ?d (lastImageFrame ?d) None)"
    and ends: "snd (detect sample_cv (?d\<lparr>lastMapFrame := None\<rparr>))
          = (case snd (find_object sample_cv ?d (lastImageFrame ?d) None) of
               Returned r \<Rightarrow> Returned (?d\<lparr>lastImageFrame := None, lastMapFrame := None\<rparr>)
             | Thrown x \<Rightarrow> Thrown x
             | Exited n \<Rightarrow> Exited n
             | Undefined_behaviour \<Rightarrow> Undefined_behaviour)"
    by blast+
  from calls ends have "detect sample_cv ?d = (textured_run, Returned sample_detector)"
    unfolding without frame pipeline cleared by (simp add: prod_eq_iff)
  with same with_map without pending no_map len show ?thesis by simp
qed

end
